theory Spec2Isabelle
  imports Complex_Main "HOL-Library.Sublist"
begin

section \<open>JavaScript values\<close>

text \<open>
  The tool arguments arrive as an untyped value (\<^verbatim>\<open>args: any\<close>). A number is an IEEE
  double: not-a-number, an infinity, or a finite value, which is a rational (the two zeros
  are one value here, both are falsy and both are \<^verbatim>\<open>=== 0\<close>). An object is the list
  of its own properties in insertion order.
\<close>

datatype jsnum = NaN | PosInf | NegInf | Finite rat

datatype jsval =
    JUndefined
  | JNull
  | JBool bool
  | JNum jsnum
  | JStr string
  | JArr "jsval list"
  | JObj "(string \<times> jsval) list"

text \<open>The \<^verbatim>\<open>typeof\<close> operator: \<^verbatim>\<open>null\<close> and arrays are \<^verbatim>\<open>"object"\<close>.\<close>

fun typeof :: "jsval \<Rightarrow> string" where
  "typeof JUndefined = ''undefined''"
| "typeof JNull = ''object''"
| "typeof (JBool b) = ''boolean''"
| "typeof (JNum n) = ''number''"
| "typeof (JStr s) = ''string''"
| "typeof (JArr xs) = ''object''"
| "typeof (JObj ps) = ''object''"

text \<open>
  Reading a named property \<^verbatim>\<open>args.k\<close>: a missing property reads as \<^verbatim>\<open>undefined\<close>.
  The source reads a property only after \<^verbatim>\<open>typeof args === "object" && args !== null\<close>
  has held (\<^verbatim>\<open>&&\<close> short-circuits), so the read never throws; the five names read are
  not properties of an array.
\<close>

fun get_prop :: "jsval \<Rightarrow> string \<Rightarrow> jsval" where
  "get_prop (JObj ps) k = (case map_of ps k of None \<Rightarrow> JUndefined | Some v \<Rightarrow> v)"
| "get_prop v k = JUndefined"

text \<open>Assignment \<^verbatim>\<open>obj.k = v\<close>: an existing property keeps its place, a new one goes last.\<close>

fun set_prop :: "(string \<times> jsval) list \<Rightarrow> string \<Rightarrow> jsval \<Rightarrow> (string \<times> jsval) list" where
  "set_prop [] k v = [(k, v)]"
| "set_prop (p # ps) k v = (if fst p = k then (k, v) # ps else p # set_prop ps k v)"

text \<open>Truthiness, as \<^verbatim>\<open>||\<close> and \<^verbatim>\<open>if (...)\<close> use it.\<close>

fun truthy :: "jsval \<Rightarrow> bool" where
  "truthy JUndefined = False"
| "truthy JNull = False"
| "truthy (JBool b) = b"
| "truthy (JNum NaN) = False"
| "truthy (JNum (Finite r)) = (r \<noteq> 0)"
| "truthy (JNum PosInf) = True"
| "truthy (JNum NegInf) = True"
| "truthy (JStr s) = (s \<noteq> [])"
| "truthy (JArr xs) = True"
| "truthy (JObj ps) = True"

definition js_or :: "jsval \<Rightarrow> jsval \<Rightarrow> jsval" where
  "js_or a b = (if truthy a then a else b)"

section \<open>Argument validation\<close>

definition isValidGenerateImageArgs :: "jsval \<Rightarrow> bool" where
  "isValidGenerateImageArgs args \<longleftrightarrow>
     typeof args = ''object'' \<and>
     args \<noteq> JNull \<and>
     typeof (get_prop args ''prompt'') = ''string'' \<and>
     (get_prop args ''numberOfImages'' = JUndefined \<or> typeof (get_prop args ''numberOfImages'') = ''number'') \<and>
     (get_prop args ''aspectRatio'' = JUndefined \<or> typeof (get_prop args ''aspectRatio'') = ''string'') \<and>
     (get_prop args ''sampleImageSize'' = JUndefined \<or> typeof (get_prop args ''sampleImageSize'') = ''string'') \<and>
     (get_prop args ''personGeneration'' = JUndefined \<or> typeof (get_prop args ''personGeneration'') = ''string'')"

text \<open>The validator of \<^verbatim>\<open>src/index.ts\<close>, which knows \<^verbatim>\<open>prompt\<close> and \<^verbatim>\<open>numberOfImages\<close> only.\<close>

definition isValidGenerateImageArgs_index :: "jsval \<Rightarrow> bool" where
  "isValidGenerateImageArgs_index args \<longleftrightarrow>
     typeof args = ''object'' \<and>
     args \<noteq> JNull \<and>
     typeof (get_prop args ''prompt'') = ''string'' \<and>
     (get_prop args ''numberOfImages'' = JUndefined \<or> typeof (get_prop args ''numberOfImages'') = ''number'')"

section \<open>Errors\<close>

datatype ErrorCode =
    ConnectionClosed
  | RequestTimeout
  | ParseError
  | InvalidRequest
  | MethodNotFound
  | InvalidParams
  | InternalError

text \<open>\<^verbatim>\<open>new McpError(code, message)\<close>: the code and the message given to the constructor.\<close>

datatype mcp_error = McpError ErrorCode string

text \<open>
  What a \<^verbatim>\<open>catch (error)\<close> can receive: an \<^verbatim>\<open>McpError\<close>, any other \<^verbatim>\<open>Error\<close> with
  its \<^verbatim>\<open>message\<close>, or a value that is no \<^verbatim>\<open>Error\<close>, kept as what \<^verbatim>\<open>String(error)\<close>
  makes of it.
\<close>

datatype thrown =
    ThrownMcp mcp_error
  | ThrownError string
  | ThrownOther string

section \<open>The upstream service, the clock and the file system\<close>

record upstream_request =
  model :: string
  prompt :: jsval
  config :: "(string \<times> jsval) list"

text \<open>
  The response of \<^verbatim>\<open>generateImages\<close>: \<^verbatim>\<open>generatedImages\<close>, \<^verbatim>\<open>image\<close> and
  \<^verbatim>\<open>imageBytes\<close> are all optional in the client library's types.
\<close>

datatype image = Image (imageBytes: "string option")

datatype generated_image = GeneratedImage (image_field: "image option")

record response =
  generatedImages :: "generated_image list option"

text \<open>
  The collaborators of one invocation: the upstream call (it returns or throws), the
  readings of \<^verbatim>\<open>Date.now()\<close> (the \<open>k\<close>-th reading of the process is \<open>now k\<close>),
  \<^verbatim>\<open>Buffer.from(s, "base64")\<close>, and whether \<^verbatim>\<open>fs.writeFileSync\<close> throws for a given
  file system, path and buffer.
\<close>

record 'b env =
  generateImages :: "upstream_request \<Rightarrow> thrown + response"
  now :: "nat \<Rightarrow> nat"
  from_base64 :: "string \<Rightarrow> 'b"
  writeFileSync :: "(string \<rightharpoonup> 'b) \<Rightarrow> string \<Rightarrow> 'b \<Rightarrow> thrown option"

text \<open>
  The state an invocation changes: the files, the log of the writes done, the log of the
  upstream calls made, and how many times the clock has been read.
\<close>

record 'b world =
  files :: "string \<rightharpoonup> 'b"
  writes :: "(string \<times> 'b) list"
  calls :: "upstream_request list"
  clock_reads :: nat

section \<open>Text\<close>

text \<open>A non-negative integer in a template literal: its decimal digits.\<close>

definition digit_char :: "nat \<Rightarrow> char" where
  "digit_char d = char_of (48 + d)"

function show_nat :: "nat \<Rightarrow> string" where
  "show_nat n = (if n < 10 then [digit_char n] else show_nat (n div 10) @ [digit_char (n mod 10)])"
  by pat_completeness auto
termination
  by (relation "measure id") auto

declare show_nat.simps [simp del]

text \<open>\<^verbatim>\<open>xs.join(sep)\<close>\<close>

fun join :: "string \<Rightarrow> string list \<Rightarrow> string" where
  "join sep [] = []"
| "join sep [x] = x"
| "join sep (x # y # ys) = x @ sep @ join sep (y # ys)"

section \<open>Persisting the images\<close>

definition filePath_of :: "nat \<Rightarrow> nat \<Rightarrow> string" where
  "filePath_of t i = ''/tmp/generated_image_'' @ show_nat t @ ''_'' @ show_nat i @ ''.png''"

text \<open>
  The loop \<^verbatim>\<open>for (let i = 0; i < imageBuffers.length; i++)\<close>: each round reads the
  clock, writes one file and pushes its path. A write that throws ends the loop; the
  files written before stay.
\<close>

function write_images ::
  "'b env \<Rightarrow> 'b list \<Rightarrow> nat \<Rightarrow> string list \<Rightarrow> 'b world \<Rightarrow> (thrown + string list) \<times> 'b world" where
  "write_images E imageBuffers i filePaths w =
     (if i < length imageBuffers then
        let filePath = filePath_of (now E (clock_reads w)) i;
            w1 = w\<lparr>clock_reads := Suc (clock_reads w)\<rparr>
        in case writeFileSync E (files w1) filePath (imageBuffers ! i) of
             Some e \<Rightarrow> (Inl e, w1)
           | None \<Rightarrow>
               write_images E imageBuffers (Suc i) (filePaths @ [filePath])
                 (w1\<lparr>files := (files w1)(filePath \<mapsto> imageBuffers ! i),
                     writes := writes w1 @ [(filePath, imageBuffers ! i)]\<rparr>)
      else (Inr filePaths, w))"
  by pat_completeness auto
termination
  by (relation "measure (\<lambda>(E, imageBuffers, i, filePaths, w). length imageBuffers - i)") auto

declare write_images.simps [simp del]

section \<open>The tool call\<close>

text \<open>The successful output: \<^verbatim>\<open>{ content: [{ type: "text", text: ... }] }\<close>.\<close>

datatype content_item = TextItem string

record tool_result =
  content :: "content_item list"

text \<open>
  The texts of the two \<^verbatim>\<open>TypeError\<close>s the runtime raises when an element of the
  response has no \<^verbatim>\<open>image\<close>, or an image has no \<^verbatim>\<open>imageBytes\<close>.
\<close>

definition TypeError_read_imageBytes :: string where
  "TypeError_read_imageBytes =
     ''Cannot read properties of undefined (reading '' @ [CHR 0x27] @ ''imageBytes'' @ [CHR 0x27] @ '')''"

definition TypeError_Buffer_from :: string where
  "TypeError_Buffer_from =
     ''The first argument must be of type string or an instance of Buffer, ArrayBuffer, or Array or an Array-like Object. Received undefined''"

text \<open>\<^verbatim>\<open>xs.map(f)\<close> with a callback that may throw: the first throw ends the map.\<close>

fun map_throwing :: "('a \<Rightarrow> thrown + 'c) \<Rightarrow> 'a list \<Rightarrow> thrown + 'c list" where
  "map_throwing f [] = Inr []"
| "map_throwing f (x # xs) =
     (case f x of
        Inl e \<Rightarrow> Inl e
      | Inr y \<Rightarrow> (case map_throwing f xs of Inl e \<Rightarrow> Inl e | Inr ys \<Rightarrow> Inr (y # ys)))"

text \<open>\<^verbatim>\<open>(generatedImage: any) => generatedImage.image.imageBytes\<close>\<close>

fun imageBytes_of :: "generated_image \<Rightarrow> thrown + string option" where
  "imageBytes_of (GeneratedImage None) = Inl (ThrownError TypeError_read_imageBytes)"
| "imageBytes_of (GeneratedImage (Some im)) = Inr (imageBytes im)"

text \<open>\<^verbatim>\<open>(imageData: string) => Buffer.from(imageData, "base64")\<close>\<close>

fun to_buffer :: "'b env \<Rightarrow> string option \<Rightarrow> thrown + 'b" where
  "to_buffer E None = Inl (ThrownError TypeError_Buffer_from)"
| "to_buffer E (Some imageData) = Inr (from_base64 E imageData)"

text \<open>
  The body of the \<^verbatim>\<open>try\<close> from the upstream call on, the same text in both source
  files: one upstream call, the check for no images, the two maps, the loop of writes,
  the summary.
\<close>

definition generate_and_save ::
  "'b env \<Rightarrow> upstream_request \<Rightarrow> 'b world \<Rightarrow> (thrown + tool_result) \<times> 'b world" where
  "generate_and_save E req w =
     (let w1 = w\<lparr>calls := calls w @ [req]\<rparr> in
      case generateImages E req of
        Inl e \<Rightarrow> (Inl e, w1)
      | Inr response \<Rightarrow>
          (case generatedImages response of
             None \<Rightarrow> (Inl (ThrownMcp (McpError InternalError ''No images generated.'')), w1)
           | Some gis \<Rightarrow>
               if length gis = 0
               then (Inl (ThrownMcp (McpError InternalError ''No images generated.'')), w1)
               else
                 (case map_throwing imageBytes_of gis of
                    Inl e \<Rightarrow> (Inl e, w1)
                  | Inr payloads \<Rightarrow>
                      (case map_throwing (to_buffer E) payloads of
                         Inl e \<Rightarrow> (Inl e, w1)
                       | Inr imageBuffers \<Rightarrow>
                           (case write_images E imageBuffers 0 [] w1 of
                              (Inl e, w2) \<Rightarrow> (Inl e, w2)
                            | (Inr filePaths, w2) \<Rightarrow>
                                (Inr \<lparr>content =
                                   [TextItem (''Generated images saved to: '' @ join '', '' filePaths)]\<rparr>,
                                 w2))))))"

text \<open>The \<^verbatim>\<open>catch (error)\<close> block.\<close>

fun catch_error :: "thrown \<Rightarrow> mcp_error" where
  "catch_error (ThrownMcp e) = e"
| "catch_error (ThrownError message) =
     McpError InternalError (''Image generation failed: '' @ message)"
| "catch_error (ThrownOther s) =
     McpError InternalError (''Image generation failed: '' @ s)"

text \<open>
  The upstream request built from validated arguments: the four \<^verbatim>\<open>||\<close> defaults,
  then the configuration object, to which each of the three textual fields is added if
  truthy.
\<close>

definition upstream_request_of :: "jsval \<Rightarrow> upstream_request" where
  "upstream_request_of args =
     (let prompt = get_prop args ''prompt'';
          numberOfImages = js_or (get_prop args ''numberOfImages'') (JNum (Finite 1));
          aspectRatio = js_or (get_prop args ''aspectRatio'') (JStr ''9:16'');
          sampleImageSize = js_or (get_prop args ''sampleImageSize'') (JStr ''2K'');
          personGeneration = js_or (get_prop args ''personGeneration'') (JStr ''allow_adult'');
          config0 = [(''numberOfImages'', numberOfImages)];
          config1 = (if truthy aspectRatio then set_prop config0 ''aspectRatio'' aspectRatio else config0);
          config2 = (if truthy personGeneration then set_prop config1 ''personGeneration'' personGeneration else config1);
          config3 = (if truthy sampleImageSize then set_prop config2 ''sampleImageSize'' sampleImageSize else config2)
      in \<lparr>model = ''imagen-4.0-generate-001'', prompt = prompt, config = config3\<rparr>)"

text \<open>
  The handler of \<^verbatim>\<open>CallToolRequestSchema\<close>. Its \<^verbatim>\<open>console.error\<close> lines write to the
  diagnostic stream and change nothing else; they are left out.
\<close>

definition CallToolRequest_handler ::
  "'b env \<Rightarrow> string \<Rightarrow> jsval \<Rightarrow> 'b world \<Rightarrow> (mcp_error + tool_result) \<times> 'b world" where
  "CallToolRequest_handler E name arguments w =
     (if name \<noteq> ''generate_image''
      then (Inl (McpError MethodNotFound (''Unknown tool: '' @ name)), w)
      else if \<not> isValidGenerateImageArgs arguments
      then (Inl (McpError InvalidParams ''Invalid generate_image arguments''), w)
      else
        (case generate_and_save E (upstream_request_of arguments) w of
           (Inl e, w') \<Rightarrow> (Inl (catch_error e), w')
         | (Inr r, w') \<Rightarrow> (Inr r, w')))"

text \<open>The same handler in \<^verbatim>\<open>src/index.ts\<close>: only \<^verbatim>\<open>numberOfImages\<close> is configured.\<close>

definition upstream_request_of_index :: "jsval \<Rightarrow> upstream_request" where
  "upstream_request_of_index args =
     (let prompt = get_prop args ''prompt'';
          numberOfImages = js_or (get_prop args ''numberOfImages'') (JNum (Finite 1))
      in \<lparr>model = ''imagen-4.0-generate-001'', prompt = prompt,
          config = [(''numberOfImages'', numberOfImages)]\<rparr>)"

definition CallToolRequest_handler_index ::
  "'b env \<Rightarrow> string \<Rightarrow> jsval \<Rightarrow> 'b world \<Rightarrow> (mcp_error + tool_result) \<times> 'b world" where
  "CallToolRequest_handler_index E name arguments w =
     (if name \<noteq> ''generate_image''
      then (Inl (McpError MethodNotFound (''Unknown tool: '' @ name)), w)
      else if \<not> isValidGenerateImageArgs_index arguments
      then (Inl (McpError InvalidParams ''Invalid generate_image arguments''), w)
      else
        (case generate_and_save E (upstream_request_of_index arguments) w of
           (Inl e, w') \<Rightarrow> (Inl (catch_error e), w')
         | (Inr r, w') \<Rightarrow> (Inr r, w')))"

section \<open>The tool list\<close>

text \<open>The handler of \<^verbatim>\<open>ListToolsRequestSchema\<close> returns this object literal.\<close>

definition ListToolsRequest_handler :: jsval where
  "ListToolsRequest_handler =
     JObj [(''tools'', JArr [
       JObj [
         (''name'', JStr ''generate_image''),
         (''description'', JStr ''Generate images using Google Gemini Imagen''),
         (''inputSchema'', JObj [
           (''type'', JStr ''object''),
           (''properties'', JObj [
             (''prompt'', JObj [
               (''type'', JStr ''string''),
               (''description'', JStr ''The prompt for image generation'')]),
             (''numberOfImages'', JObj [
               (''type'', JStr ''number''),
               (''description'', JStr ''Number of images to generate (1-4)''),
               (''minimum'', JNum (Finite 1)),
               (''maximum'', JNum (Finite 4))]),
             (''aspectRatio'', JObj [
               (''type'', JStr ''string''),
               (''description'', JStr ''Changes the aspect ratio of the generated image''),
               (''enum'', JArr [JStr ''1:1'', JStr ''3:4'', JStr ''4:3'', JStr ''9:16'', JStr ''16:9'']),
               (''default'', JStr ''9:16'')]),
             (''sampleImageSize'', JObj [
               (''type'', JStr ''string''),
               (''description'', JStr ''The size of the generated image (Standard and Ultra models only)''),
               (''enum'', JArr [JStr ''1K'', JStr ''2K'']),
               (''default'', JStr ''2K'')]),
             (''personGeneration'', JObj [
               (''type'', JStr ''string''),
               (''description'', JStr ''Allow the model to generate images of people''),
               (''enum'', JArr [JStr ''dont_allow'', JStr ''allow_adult'', JStr ''allow_all'']),
               (''default'', JStr ''allow_all'')])]),
           (''required'', JArr [JStr ''prompt''])])]])]"

section \<open>Notions used in the statements\<close>

text \<open>The number a string of decimal digits denotes.\<close>

definition digits_value :: "string \<Rightarrow> nat" where
  "digits_value s = foldl (\<lambda>a c. 10 * a + (of_char c - 48)) 0 s"

text \<open>
  The writes the loop has still to do when it is at index \<open>i\<close> and the clock has been read
  \<open>c\<close> times: one per remaining buffer, each named after the clock reading of its round.
\<close>

definition planned_writes :: "'b env \<Rightarrow> nat \<Rightarrow> 'b list \<Rightarrow> nat \<Rightarrow> (string \<times> 'b) list" where
  "planned_writes E c bufs i =
     map (\<lambda>k. (filePath_of (now E (c + k)) (i + k), bufs ! (i + k))) [0..<length bufs - i]"

text \<open>The two versions of the handler in the repository, each with its request builder.\<close>

definition handler_versions ::
  "(('b env \<Rightarrow> string \<Rightarrow> jsval \<Rightarrow> 'b world \<Rightarrow> (mcp_error + tool_result) \<times> 'b world) \<times>
    (jsval \<Rightarrow> upstream_request)) list" where
  "handler_versions =
     [(CallToolRequest_handler, upstream_request_of),
      (CallToolRequest_handler_index, upstream_request_of_index)]"

text \<open>Concrete collaborators and inputs, for the examples.\<close>

definition example_env :: "(nat \<Rightarrow> nat) \<Rightarrow> (thrown + response) \<Rightarrow> thrown option \<Rightarrow> string env" where
  "example_env clock outcome write_outcome =
     \<lparr>generateImages = (\<lambda>req. outcome), now = clock, from_base64 = id,
      writeFileSync = (\<lambda>fs p b. write_outcome)\<rparr>"

definition ticking :: "nat \<Rightarrow> nat" where
  "ticking k = 1000 + k"

definition frozen :: "nat \<Rightarrow> nat" where
  "frozen k = 1000"

definition two_images :: "thrown + response" where
  "two_images = Inr \<lparr>generatedImages =
     Some [GeneratedImage (Some (Image (Some ''aGk=''))), GeneratedImage (Some (Image (Some ''eW8='')))]\<rparr>"

definition empty_world :: "string world" where
  "empty_world = \<lparr>files = Map.empty, writes = [], calls = [], clock_reads = 0\<rparr>"

definition a_cat :: jsval where
  "a_cat = JObj [(''prompt'', JStr ''A cat''), (''numberOfImages'', JNum (Finite 2))]"

section \<open>Decimal text and file names\<close>

lemma of_char_digit_char: "d < 10 \<Longrightarrow> of_char (digit_char d) = 48 + d"
  by (simp add: digit_char_def)

lemma digits_value_show_nat: "digits_value (show_nat n) = n"
proof (induction n rule: show_nat.induct)
  case (1 n)
  show ?case
  proof (cases "n < 10")
    case True
    then show ?thesis
      by (subst show_nat.simps) (simp add: digits_value_def of_char_digit_char)
  next
    case False
    with 1 have "digits_value (show_nat (n div 10)) = n div 10" by simp
    with False show ?thesis
      by (subst show_nat.simps) (simp add: digits_value_def of_char_digit_char)
  qed
qed

lemma show_nat_inj: "show_nat a = show_nat b \<Longrightarrow> a = b"
  by (metis digits_value_show_nat)

lemma digit_char_not_underscore: "d < 10 \<Longrightarrow> digit_char d \<noteq> CHR ''_''"
proof
  assume "d < 10" "digit_char d = CHR ''_''"
  then have "of_char (digit_char d) = (of_char (CHR ''_'') :: nat)" by simp
  with \<open>d < 10\<close> show False by (simp add: of_char_digit_char)
qed

lemma show_nat_no_underscore: "CHR ''_'' \<notin> set (show_nat n)"
proof (induction n rule: show_nat.induct)
  case (1 n)
  show ?case
  proof (cases "n < 10")
    case True
    then show ?thesis
      using digit_char_not_underscore [of n] by (subst show_nat.simps) auto
  next
    case False
    with 1 have "CHR ''_'' \<notin> set (show_nat (n div 10))" by simp
    with False show ?thesis
      using digit_char_not_underscore [of "n mod 10"] by (subst show_nat.simps) auto
  qed
qed

lemma takeWhile_stop: "y \<notin> set xs \<Longrightarrow> takeWhile (\<lambda>c. c \<noteq> y) (xs @ y # ys) = xs"
  by (induction xs) auto

lemma timestamp_of_filePath:
  "takeWhile (\<lambda>c. c \<noteq> CHR ''_'') (drop 21 (filePath_of t i)) = show_nat t"
proof -
  have "drop 21 (filePath_of t i) =
      drop (length ''/tmp/generated_image_'') (''/tmp/generated_image_'' @ show_nat t @ CHR ''_'' # show_nat i @ ''.png'')"
    by (simp add: filePath_of_def)
  also have "\<dots> = show_nat t @ CHR ''_'' # show_nat i @ ''.png''"
    by simp
  finally show ?thesis
    using show_nat_no_underscore [of t] by (simp add: takeWhile_stop)
qed

lemma index_of_filePath:
  "takeWhile (\<lambda>c. c \<noteq> CHR ''_'') (drop 4 (rev (filePath_of t i))) = rev (show_nat i)"
  using show_nat_no_underscore [of i]
  by (simp add: filePath_of_def takeWhile_stop)

lemma filePath_of_inj: "filePath_of t i = filePath_of t' i' \<longleftrightarrow> t = t' \<and> i = i'"
proof
  assume eq: "filePath_of t i = filePath_of t' i'"
  have "show_nat t = show_nat t'"
    using timestamp_of_filePath [of t i] timestamp_of_filePath [of t' i'] eq by simp
  moreover have "rev (show_nat i) = rev (show_nat i')"
    using index_of_filePath [of t i] index_of_filePath [of t' i'] eq by simp
  ultimately show "t = t' \<and> i = i'"
    by (auto dest: show_nat_inj)
qed simp

section \<open>The loop of writes\<close>

lemma planned_writes_step:
  assumes "i < length bufs"
  shows "planned_writes E c bufs i =
           (filePath_of (now E c) i, bufs ! i) # planned_writes E (Suc c) bufs (Suc i)"
proof -
  from assms have len: "length bufs - i = Suc (length bufs - Suc i)" by simp
  have "[0..<Suc (length bufs - Suc i)] = 0 # map Suc [0..<length bufs - Suc i]"
    by (simp add: upt_conv_Cons map_Suc_upt del: upt_Suc)
  then show ?thesis
    unfolding planned_writes_def len by (simp add: comp_def del: upt_Suc)
qed

lemma planned_writes_done: "\<not> i < length bufs \<Longrightarrow> planned_writes E c bufs i = []"
  by (simp add: planned_writes_def)

lemma write_images_Inr:
  "write_images E bufs i fps w = (Inr ps, w') \<Longrightarrow>
     ps = fps @ map fst (planned_writes E (clock_reads w) bufs i) \<and>
     writes w' = writes w @ planned_writes E (clock_reads w) bufs i \<and>
     files w' = files w ++ map_of (rev (planned_writes E (clock_reads w) bufs i)) \<and>
     calls w' = calls w \<and>
     clock_reads w' = clock_reads w + (length bufs - i)"
proof (induction E bufs i fps w rule: write_images.induct)
  case (1 E bufs i fps w)
  show ?case
  proof (cases "i < length bufs")
    case False
    with "1.prems" show ?thesis
      by (simp add: write_images.simps planned_writes_done)
  next
    case True
    define p where "p = filePath_of (now E (clock_reads w)) i"
    define w1 where "w1 = w\<lparr>clock_reads := Suc (clock_reads w)\<rparr>"
    define w2 where "w2 = w1\<lparr>files := (files w1)(p \<mapsto> bufs ! i), writes := writes w1 @ [(p, bufs ! i)]\<rparr>"
    from True "1.prems" have ok: "writeFileSync E (files w1) p (bufs ! i) = None"
      and run: "write_images E bufs (Suc i) (fps @ [p]) w2 = (Inr ps, w')"
      by (auto simp: write_images.simps [of E bufs i] Let_def p_def w1_def w2_def split: option.splits)
    have IH: "ps = (fps @ [p]) @ map fst (planned_writes E (clock_reads w2) bufs (Suc i)) \<and>
      writes w' = writes w2 @ planned_writes E (clock_reads w2) bufs (Suc i) \<and>
      files w' = files w2 ++ map_of (rev (planned_writes E (clock_reads w2) bufs (Suc i))) \<and>
      calls w' = calls w2 \<and>
      clock_reads w' = clock_reads w2 + (length bufs - Suc i)"
      using "1.IH" [OF True p_def w1_def ok, folded w2_def, OF run] by simp
    have step: "planned_writes E (clock_reads w) bufs i =
        (p, bufs ! i) # planned_writes E (clock_reads w2) bufs (Suc i)"
      using planned_writes_step [OF True, of E "clock_reads w"] by (simp add: p_def w2_def w1_def)
    from IH True show ?thesis
      unfolding step by (simp add: w2_def w1_def map_add_upd_left)
  qed
qed

lemma write_images_calls: "calls (snd (write_images E bufs i fps w)) = calls w"
proof (induction E bufs i fps w rule: write_images.induct)
  case (1 E bufs i fps w)
  show ?case
  proof (cases "i < length bufs")
    case False
    then show ?thesis by (simp add: write_images.simps)
  next
    case True
    define p where "p = filePath_of (now E (clock_reads w)) i"
    define w1 where "w1 = w\<lparr>clock_reads := Suc (clock_reads w)\<rparr>"
    show ?thesis
    proof (cases "writeFileSync E (files w1) p (bufs ! i)")
      case (Some e)
      with True show ?thesis
        by (simp add: write_images.simps [of E bufs i] Let_def p_def w1_def)
    next
      case None
      from "1.IH" [OF True p_def w1_def None] None True show ?thesis
        by (simp add: write_images.simps [of E bufs i] Let_def p_def w1_def)
    qed
  qed
qed

lemma write_images_Inl:
  "write_images E bufs i fps w = (Inl e, w') \<Longrightarrow> \<exists>fs p b. writeFileSync E fs p b = Some e"
proof (induction E bufs i fps w rule: write_images.induct)
  case (1 E bufs i fps w)
  show ?case
  proof (cases "i < length bufs")
    case False
    with "1.prems" show ?thesis by (simp add: write_images.simps)
  next
    case True
    define p where "p = filePath_of (now E (clock_reads w)) i"
    define w1 where "w1 = w\<lparr>clock_reads := Suc (clock_reads w)\<rparr>"
    show ?thesis
    proof (cases "writeFileSync E (files w1) p (bufs ! i)")
      case (Some e')
      with True "1.prems" have "e' = e"
        by (simp add: write_images.simps [of E bufs i] Let_def p_def w1_def)
      with Some show ?thesis by blast
    next
      case None
      from None True "1.prems" show ?thesis
        by (intro "1.IH" [OF True p_def w1_def None])
           (simp add: write_images.simps [of E bufs i] Let_def p_def w1_def)
    qed
  qed
qed

lemma map_throwing_Inr:
  "map_throwing f xs = Inr ys \<Longrightarrow> list_all2 (\<lambda>x y. f x = Inr y) xs ys"
  by (induction xs arbitrary: ys) (auto split: sum.splits)

lemma imageBytes_of_Inr:
  "imageBytes_of g = Inr b \<longleftrightarrow> g = GeneratedImage (Some (Image b))"
  by (cases g; cases "image_field g"; cases "the (image_field g)") auto

lemma to_buffer_Inr: "to_buffer E x = Inr b \<longleftrightarrow> (\<exists>s. x = Some s \<and> b = from_base64 E s)"
  by (cases x) auto

lemma payloads_of_response:
  assumes "map_throwing imageBytes_of gis = Inr xs" and "map_throwing (to_buffer E) xs = Inr bufs"
  shows "\<exists>payloads. gis = map (\<lambda>s. GeneratedImage (Some (Image (Some s)))) payloads \<and>
           bufs = map (from_base64 E) payloads"
proof -
  have a: "list_all2 (\<lambda>g x. g = GeneratedImage (Some (Image x))) gis xs"
    using map_throwing_Inr [OF assms(1)] by (simp add: imageBytes_of_Inr)
  have b: "list_all2 (\<lambda>x b. \<exists>s. x = Some s \<and> b = from_base64 E s) xs bufs"
    using map_throwing_Inr [OF assms(2)] by (simp add: to_buffer_Inr)
  define payloads where "payloads = map the xs"
  have xs: "xs = map Some payloads"
    using b unfolding payloads_def by (induction rule: list_all2_induct) auto
  have "bufs = map (from_base64 E) payloads"
    using b unfolding payloads_def by (induction rule: list_all2_induct) auto
  moreover have "gis = map (\<lambda>s. GeneratedImage (Some (Image (Some s)))) payloads"
    using a unfolding xs by (induction gis arbitrary: payloads) (auto simp: list_all2_Cons1)
  ultimately show ?thesis by blast
qed

lemma generate_and_save_Inr:
  assumes "generate_and_save E req w = (Inr r, w')"
  shows "\<exists>resp payloads.
           generateImages E req = Inr resp \<and>
           generatedImages resp = Some (map (\<lambda>s. GeneratedImage (Some (Image (Some s)))) payloads) \<and>
           payloads \<noteq> [] \<and>
           r = \<lparr>content = [TextItem (''Generated images saved to: '' @
                  join '', '' (map fst (planned_writes E (clock_reads w) (map (from_base64 E) payloads) 0)))]\<rparr> \<and>
           writes w' = writes w @ planned_writes E (clock_reads w) (map (from_base64 E) payloads) 0 \<and>
           files w' = files w ++ map_of (rev (planned_writes E (clock_reads w) (map (from_base64 E) payloads) 0)) \<and>
           calls w' = calls w @ [req] \<and>
           clock_reads w' = clock_reads w + length payloads"
proof -
  define w1 where "w1 = w\<lparr>calls := calls w @ [req]\<rparr>"
  from assms obtain resp gis xs bufs ps where
    up: "generateImages E req = Inr resp" and gi: "generatedImages resp = Some gis" and
    ne: "gis \<noteq> []" and m1: "map_throwing imageBytes_of gis = Inr xs" and
    m2: "map_throwing (to_buffer E) xs = Inr bufs" and
    wr: "write_images E bufs 0 [] w1 = (Inr ps, w')" and
    r: "r = \<lparr>content = [TextItem (''Generated images saved to: '' @ join '', '' ps)]\<rparr>"
    unfolding generate_and_save_def Let_def w1_def
    by (auto split: sum.splits option.splits if_splits prod.splits)
  from payloads_of_response [OF m1 m2] obtain payloads where
    gis: "gis = map (\<lambda>s. GeneratedImage (Some (Image (Some s)))) payloads" and
    bufs: "bufs = map (from_base64 E) payloads" by blast
  from write_images_Inr [OF wr] ne show ?thesis
    unfolding r by (intro exI [of _ resp] exI [of _ payloads]) (simp add: up gi gis bufs w1_def)
qed

section \<open>Successful calls\<close>

lemma handler_Inr:
  assumes "(H, R) \<in> set handler_versions" and "fst (H E name args w) = Inr r"
  shows "generate_and_save E (R args) w = (Inr r, snd (H E name args w))"
  using assms
  by (auto simp: handler_versions_def CallToolRequest_handler_def CallToolRequest_handler_index_def
           split: if_splits prod.splits sum.splits)

lemma planned_writes_0:
  "planned_writes E c (map f payloads) 0 =
     map (\<lambda>i. (filePath_of (now E (c + i)) i, f (payloads ! i))) [0..<length payloads]"
  by (simp add: planned_writes_def)

lemma distinct_planned_paths: "distinct (map fst (planned_writes E c bufs i))"
  by (simp add: planned_writes_def distinct_map comp_def inj_on_def filePath_of_inj)

lemma map_of_planned:
  assumes "k < length payloads"
  shows "map_of (rev (planned_writes E c (map f payloads) 0)) (filePath_of (now E (c + k)) k) = Some (f (payloads ! k))"
proof -
  have "distinct (map fst (rev (planned_writes E c (map f payloads) 0)))"
    using distinct_planned_paths [of E c "map f payloads" 0] by (simp add: rev_map [symmetric])
  moreover have "(filePath_of (now E (c + k)) k, f (payloads ! k)) \<in> set (rev (planned_writes E c (map f payloads) 0))"
    using assms by (auto simp: planned_writes_0)
  ultimately show ?thesis by (rule map_of_is_SomeI)
qed

text \<open>
  Claim C1. A call succeeds only if the upstream service returned a list of \<open>N \<ge> 1\<close> image
  payloads. Then exactly \<open>N\<close> files are written, to \<open>N\<close> different paths, the summary
  returned to the caller lists these \<open>N\<close> paths, and the \<open>i\<close>-th path holds the decoded
  \<open>i\<close>-th payload, whatever the arguments asked for. This holds for both versions of the
  handler.
\<close>

theorem images_written_match_upstream:
  assumes "(H, R) \<in> set handler_versions" and "fst (H E name args w) = Inr r"
  shows "\<exists>resp payloads paths.
           generateImages E (R args) = Inr resp \<and>
           generatedImages resp = Some (map (\<lambda>s. GeneratedImage (Some (Image (Some s)))) payloads) \<and>
           1 \<le> length payloads \<and>
           length paths = length payloads \<and>
           distinct paths \<and>
           content r = [TextItem (''Generated images saved to: '' @ join '', '' paths)] \<and>
           writes (snd (H E name args w)) = writes w @ zip paths (map (from_base64 E) payloads) \<and>
           (\<forall>i<length payloads. files (snd (H E name args w)) (paths ! i) = Some (from_base64 E (payloads ! i)))"
proof -
  define w' where "w' = snd (H E name args w)"
  from generate_and_save_Inr [OF handler_Inr [OF assms]] obtain resp payloads where
    up: "generateImages E (R args) = Inr resp" and
    gi: "generatedImages resp = Some (map (\<lambda>s. GeneratedImage (Some (Image (Some s)))) payloads)" and
    ne: "payloads \<noteq> []" and
    r: "r = \<lparr>content = [TextItem (''Generated images saved to: '' @
          join '', '' (map fst (planned_writes E (clock_reads w) (map (from_base64 E) payloads) 0)))]\<rparr>" and
    wr: "writes w' = writes w @ planned_writes E (clock_reads w) (map (from_base64 E) payloads) 0" and
    fi: "files w' = files w ++ map_of (rev (planned_writes E (clock_reads w) (map (from_base64 E) payloads) 0))"
    unfolding w'_def by blast
  define pw where "pw = planned_writes E (clock_reads w) (map (from_base64 E) payloads) 0"
  define paths where "paths = map fst pw"
  have len: "length paths = length payloads"
    by (simp add: paths_def pw_def planned_writes_0)
  have nth: "paths ! i = filePath_of (now E (clock_reads w + i)) i" if "i < length payloads" for i
    using that by (simp add: paths_def pw_def planned_writes_0)
  have zip: "pw = zip paths (map (from_base64 E) payloads)"
    by (rule nth_equalityI) (simp_all add: paths_def pw_def planned_writes_0)
  have "files w' (paths ! i) = Some (from_base64 E (payloads ! i))" if "i < length payloads" for i
    using map_of_planned [OF that, of E "clock_reads w" "from_base64 E"] that
    by (simp add: fi nth map_add_Some_iff)
  moreover have "distinct paths"
    unfolding paths_def pw_def by (rule distinct_planned_paths)
  moreover from ne have "1 \<le> length payloads" by (cases payloads) auto
  ultimately show ?thesis
    using up gi len wr zip r unfolding w'_def [symmetric] pw_def [symmetric] paths_def [symmetric]
    by (intro exI [of _ resp] exI [of _ payloads] exI [of _ paths]) simp
qed


lemma example_paths:
  "filePath_of 1000 0 = ''/tmp/generated_image_1000_0.png''"
  "filePath_of 1001 1 = ''/tmp/generated_image_1001_1.png''"
  "filePath_of 1001 (Suc 0) = ''/tmp/generated_image_1001_1.png''"
  "filePath_of 1000 1 = ''/tmp/generated_image_1000_1.png''"
  "filePath_of 1000 (Suc 0) = ''/tmp/generated_image_1000_1.png''"
  by code_simp+

lemma example_run:
  "CallToolRequest_handler (example_env ticking two_images None) ''generate_image'' a_cat empty_world =
     (Inr \<lparr>content = [TextItem ''Generated images saved to: /tmp/generated_image_1000_0.png, /tmp/generated_image_1001_1.png'']\<rparr>,
      \<lparr>files = [''/tmp/generated_image_1000_0.png'' \<mapsto> ''aGk='', ''/tmp/generated_image_1001_1.png'' \<mapsto> ''eW8=''],
       writes = [(''/tmp/generated_image_1000_0.png'', ''aGk=''), (''/tmp/generated_image_1001_1.png'', ''eW8='')],
       calls = [\<lparr>model = ''imagen-4.0-generate-001'', prompt = JStr ''A cat'',
                 config = [(''numberOfImages'', JNum (Finite 2)), (''aspectRatio'', JStr ''9:16''),
                           (''personGeneration'', JStr ''allow_adult''), (''sampleImageSize'', JStr ''2K'')]\<rparr>],
       clock_reads = 2\<rparr>)"
  by (simp add: CallToolRequest_handler_def isValidGenerateImageArgs_def a_cat_def upstream_request_of_def
        js_or_def generate_and_save_def example_env_def two_images_def empty_world_def
        ticking_def write_images.simps example_paths Let_def)

theorem images_written_match_upstream_witness:
  "(CallToolRequest_handler, upstream_request_of) \<in> set handler_versions \<and>
   fst (CallToolRequest_handler (example_env ticking two_images None) ''generate_image'' a_cat empty_world) =
     Inr \<lparr>content = [TextItem ''Generated images saved to: /tmp/generated_image_1000_0.png, /tmp/generated_image_1001_1.png'']\<rparr> \<and>
   (\<exists>resp payloads paths.
      generateImages (example_env ticking two_images None) (upstream_request_of a_cat) = Inr resp \<and>
      generatedImages resp = Some (map (\<lambda>s. GeneratedImage (Some (Image (Some s)))) payloads) \<and>
      1 \<le> length payloads \<and>
      length paths = length payloads \<and>
      distinct paths \<and>
      writes (snd (CallToolRequest_handler (example_env ticking two_images None) ''generate_image'' a_cat empty_world)) =
        writes empty_world @ zip paths (map (from_base64 (example_env ticking two_images None)) payloads) \<and>
      (\<forall>i<length payloads.
         files (snd (CallToolRequest_handler (example_env ticking two_images None) ''generate_image'' a_cat empty_world)) (paths ! i) =
           Some (from_base64 (example_env ticking two_images None) (payloads ! i))))"
proof -
  have versions: "(CallToolRequest_handler, upstream_request_of) \<in> set handler_versions"
    by (simp add: handler_versions_def)
  have run: "fst (CallToolRequest_handler (example_env ticking two_images None) ''generate_image'' a_cat empty_world) =
     Inr \<lparr>content = [TextItem ''Generated images saved to: /tmp/generated_image_1000_0.png, /tmp/generated_image_1001_1.png'']\<rparr>"
    by (simp add: example_run)
  from images_written_match_upstream [OF versions run] versions run show ?thesis
    by blast
qed


section \<open>File names\<close>

lemma example_run_frozen:
  "CallToolRequest_handler (example_env frozen two_images None) ''generate_image'' a_cat empty_world =
     (Inr \<lparr>content = [TextItem ''Generated images saved to: /tmp/generated_image_1000_0.png, /tmp/generated_image_1000_1.png'']\<rparr>,
      \<lparr>files = [''/tmp/generated_image_1000_0.png'' \<mapsto> ''aGk='', ''/tmp/generated_image_1000_1.png'' \<mapsto> ''eW8=''],
       writes = [(''/tmp/generated_image_1000_0.png'', ''aGk=''), (''/tmp/generated_image_1000_1.png'', ''eW8='')],
       calls = [\<lparr>model = ''imagen-4.0-generate-001'', prompt = JStr ''A cat'',
                 config = [(''numberOfImages'', JNum (Finite 2)), (''aspectRatio'', JStr ''9:16''),
                           (''personGeneration'', JStr ''allow_adult''), (''sampleImageSize'', JStr ''2K'')]\<rparr>],
       clock_reads = 2\<rparr>)"
  by (simp add: CallToolRequest_handler_def isValidGenerateImageArgs_def a_cat_def upstream_request_of_def
        js_or_def generate_and_save_def example_env_def two_images_def empty_world_def
        frozen_def write_images.simps example_paths Let_def)

text \<open>
  Claim C7, as the code has it. The clock is read once per file, in the round that
  writes it: after a successful call that persists \<open>N\<close> images, the \<open>i\<close>-th file is at
  \<^verbatim>\<open>/tmp/generated_image_<t_i>_<i>.png\<close> where \<open>t\<^sub>i\<close> is the clock reading of round
  \<open>i\<close>. The \<open>N\<close> files share one timestamp when the clock shows the same instant in every
  round of the loop.
\<close>

theorem file_names_carry_clock_readings:
  assumes "(H, R) \<in> set handler_versions" and "fst (H E name args w) = Inr r"
  shows "let w' = snd (H E name args w); N = length (writes w') - length (writes w) in
           1 \<le> N \<and>
           map fst (writes w') =
             map fst (writes w) @ map (\<lambda>i. filePath_of (now E (clock_reads w + i)) i) [0..<N] \<and>
           (\<forall>t. (\<forall>i<N. now E (clock_reads w + i) = t) \<longrightarrow>
              map fst (writes w') = map fst (writes w) @ map (filePath_of t) [0..<N])"
proof -
  define w' where "w' = snd (H E name args w)"
  from generate_and_save_Inr [OF handler_Inr [OF assms]] obtain payloads where
    ne: "payloads \<noteq> []" and
    wr: "writes w' = writes w @ planned_writes E (clock_reads w) (map (from_base64 E) payloads) 0"
    unfolding w'_def by blast
  have N: "length (writes w') - length (writes w) = length payloads"
    by (simp add: wr planned_writes_0)
  have paths: "map fst (writes w') =
      map fst (writes w) @ map (\<lambda>i. filePath_of (now E (clock_reads w + i)) i) [0..<length payloads]"
    by (simp add: wr planned_writes_0 comp_def)
  have "map (\<lambda>i. filePath_of (now E (clock_reads w + i)) i) [0..<length payloads] =
      map (filePath_of t) [0..<length payloads]"
    if "\<forall>i<length payloads. now E (clock_reads w + i) = t" for t
    using that by simp
  with paths ne show ?thesis
    unfolding w'_def [symmetric] Let_def N by (cases payloads) auto
qed

theorem file_names_carry_clock_readings_witness:
  "(CallToolRequest_handler, upstream_request_of) \<in> set handler_versions \<and>
   fst (CallToolRequest_handler (example_env frozen two_images None) ''generate_image'' a_cat empty_world) =
     Inr \<lparr>content = [TextItem ''Generated images saved to: /tmp/generated_image_1000_0.png, /tmp/generated_image_1000_1.png'']\<rparr> \<and>
   now (example_env frozen two_images None) (clock_reads empty_world + 0) = 1000 \<and>
   now (example_env frozen two_images None) (clock_reads empty_world + 1) = 1000 \<and>
   map fst (writes (snd (CallToolRequest_handler (example_env frozen two_images None) ''generate_image'' a_cat empty_world))) =
     map fst (writes empty_world) @ map (filePath_of 1000) [0..<2]"
proof -
  have versions: "(CallToolRequest_handler, upstream_request_of) \<in> set handler_versions"
    by (simp add: handler_versions_def)
  have run: "fst (CallToolRequest_handler (example_env frozen two_images None) ''generate_image'' a_cat empty_world) =
     Inr \<lparr>content = [TextItem ''Generated images saved to: /tmp/generated_image_1000_0.png, /tmp/generated_image_1000_1.png'']\<rparr>"
    by (simp add: example_run_frozen)
  have clock: "\<forall>i<2. now (example_env frozen two_images None) (clock_reads empty_world + i) = 1000"
    by (simp add: example_env_def frozen_def)
  have N: "length (writes (snd (CallToolRequest_handler (example_env frozen two_images None) ''generate_image'' a_cat empty_world))) -
      length (writes empty_world) = 2"
  proof -
    have "writes empty_world = []" by (simp add: empty_world_def)
    then show ?thesis by (simp add: example_run_frozen)
  qed
  from file_names_carry_clock_readings [OF versions run, unfolded Let_def N] clock
  have "map fst (writes (snd (CallToolRequest_handler (example_env frozen two_images None) ''generate_image'' a_cat empty_world))) =
     map fst (writes empty_world) @ map (filePath_of 1000) [0..<2]"
    by blast
  moreover have "now (example_env frozen two_images None) (clock_reads empty_world + 0) = 1000"
    "now (example_env frozen two_images None) (clock_reads empty_world + 1) = 1000"
    by (simp_all add: example_env_def frozen_def)
  ultimately show ?thesis using versions run by blast
qed

text \<open>
  Claim C7, as stated, fails: when the clock advances between the two rounds, the second
  file does not carry the timestamp of the first.
\<close>

theorem shared_timestamp_counterexample:
  "map fst (writes (snd (CallToolRequest_handler (example_env ticking two_images None)
       ''generate_image'' a_cat empty_world))) =
     [filePath_of 1000 0, filePath_of 1001 1] \<and>
   filePath_of 1001 1 \<noteq> filePath_of 1000 1"
  by (simp add: example_run example_paths)


section \<open>Validation\<close>

text \<open>
  Claim C3. A call to \<^verbatim>\<open>generate_image\<close> whose arguments are \<^verbatim>\<open>null\<close>, not an object,
  without a \<^verbatim>\<open>prompt\<close>, with a \<^verbatim>\<open>prompt\<close> that is no string, or with an optional field
  present with the wrong primitive type, fails with \<^verbatim>\<open>InvalidParams\<close>; the state is
  untouched, so the upstream service is not called and nothing is written.
\<close>

theorem invalid_arguments_rejected_before_upstream:
  assumes "arguments = JNull \<or>
           typeof arguments \<noteq> ''object'' \<or>
           get_prop arguments ''prompt'' = JUndefined \<or>
           typeof (get_prop arguments ''prompt'') \<noteq> ''string'' \<or>
           (get_prop arguments ''numberOfImages'' \<noteq> JUndefined \<and>
              typeof (get_prop arguments ''numberOfImages'') \<noteq> ''number'') \<or>
           (get_prop arguments ''aspectRatio'' \<noteq> JUndefined \<and>
              typeof (get_prop arguments ''aspectRatio'') \<noteq> ''string'') \<or>
           (get_prop arguments ''sampleImageSize'' \<noteq> JUndefined \<and>
              typeof (get_prop arguments ''sampleImageSize'') \<noteq> ''string'') \<or>
           (get_prop arguments ''personGeneration'' \<noteq> JUndefined \<and>
              typeof (get_prop arguments ''personGeneration'') \<noteq> ''string'')"
  shows "CallToolRequest_handler E ''generate_image'' arguments w =
           (Inl (McpError InvalidParams ''Invalid generate_image arguments''), w) \<and>
         calls (snd (CallToolRequest_handler E ''generate_image'' arguments w)) = calls w \<and>
         writes (snd (CallToolRequest_handler E ''generate_image'' arguments w)) = writes w \<and>
         files (snd (CallToolRequest_handler E ''generate_image'' arguments w)) = files w"
proof -
  from assms have "\<not> isValidGenerateImageArgs arguments"
    unfolding isValidGenerateImageArgs_def by auto
  then show ?thesis
    by (simp add: CallToolRequest_handler_def)
qed

theorem invalid_arguments_rejected_before_upstream_witness:
  "CallToolRequest_handler (example_env ticking two_images None) ''generate_image''
     JNull empty_world =
     (Inl (McpError InvalidParams ''Invalid generate_image arguments''), empty_world) \<and>
   CallToolRequest_handler (example_env ticking two_images None) ''generate_image''
     (JStr ''A cat'') empty_world =
     (Inl (McpError InvalidParams ''Invalid generate_image arguments''), empty_world) \<and>
   CallToolRequest_handler (example_env ticking two_images None) ''generate_image''
     (JObj []) empty_world =
     (Inl (McpError InvalidParams ''Invalid generate_image arguments''), empty_world) \<and>
   CallToolRequest_handler (example_env ticking two_images None) ''generate_image''
     (JObj [(''prompt'', JNum (Finite 5))]) empty_world =
     (Inl (McpError InvalidParams ''Invalid generate_image arguments''), empty_world) \<and>
   CallToolRequest_handler (example_env ticking two_images None) ''generate_image''
     (JObj [(''prompt'', JStr ''A cat''), (''numberOfImages'', JStr ''2'')]) empty_world =
     (Inl (McpError InvalidParams ''Invalid generate_image arguments''), empty_world) \<and>
   CallToolRequest_handler (example_env ticking two_images None) ''generate_image''
     (JObj [(''prompt'', JStr ''A cat''), (''aspectRatio'', JNum (Finite 1))]) empty_world =
     (Inl (McpError InvalidParams ''Invalid generate_image arguments''), empty_world)"
proof -
  note rejected =
    invalid_arguments_rejected_before_upstream
      [of _ "example_env ticking two_images None" empty_world, THEN conjunct1]
  show ?thesis
    by (intro conjI; rule rejected; simp)
qed

section \<open>Responses without images\<close>

text \<open>
  Claim C5. When the upstream call returns and the list of images is missing or empty,
  the call fails with \<^verbatim>\<open>InternalError\<close> and the message \<^verbatim>\<open>No images generated.\<close>; the
  only change of state is the record of the upstream call: no file is written.
\<close>

theorem no_images_is_internal_error:
  assumes "isValidGenerateImageArgs arguments"
      and "generateImages E (upstream_request_of arguments) = Inr resp"
      and "generatedImages resp = None \<or> generatedImages resp = Some []"
  shows "CallToolRequest_handler E ''generate_image'' arguments w =
           (Inl (McpError InternalError ''No images generated.''),
            w\<lparr>calls := calls w @ [upstream_request_of arguments]\<rparr>) \<and>
         files (snd (CallToolRequest_handler E ''generate_image'' arguments w)) = files w \<and>
         writes (snd (CallToolRequest_handler E ''generate_image'' arguments w)) = writes w"
  using assms
  by (auto simp: CallToolRequest_handler_def generate_and_save_def Let_def)

theorem no_images_is_internal_error_witness:
  "isValidGenerateImageArgs a_cat \<and>
   generateImages (example_env ticking (Inr \<lparr>generatedImages = Some []\<rparr>) None) (upstream_request_of a_cat) =
     Inr \<lparr>generatedImages = Some []\<rparr> \<and>
   generateImages (example_env ticking (Inr \<lparr>generatedImages = None\<rparr>) None) (upstream_request_of a_cat) =
     Inr \<lparr>generatedImages = None\<rparr> \<and>
   fst (CallToolRequest_handler (example_env ticking (Inr \<lparr>generatedImages = Some []\<rparr>) None)
          ''generate_image'' a_cat empty_world) = Inl (McpError InternalError ''No images generated.'') \<and>
   writes (snd (CallToolRequest_handler (example_env ticking (Inr \<lparr>generatedImages = Some []\<rparr>) None)
          ''generate_image'' a_cat empty_world)) = writes empty_world \<and>
   fst (CallToolRequest_handler (example_env ticking (Inr \<lparr>generatedImages = None\<rparr>) None)
          ''generate_image'' a_cat empty_world) = Inl (McpError InternalError ''No images generated.'') \<and>
   writes (snd (CallToolRequest_handler (example_env ticking (Inr \<lparr>generatedImages = None\<rparr>) None)
          ''generate_image'' a_cat empty_world)) = writes empty_world"
proof -
  have valid: "isValidGenerateImageArgs a_cat"
    by (simp add: isValidGenerateImageArgs_def a_cat_def)
  have empty: "generateImages (example_env ticking (Inr \<lparr>generatedImages = Some []\<rparr>) None) (upstream_request_of a_cat) =
     Inr \<lparr>generatedImages = Some []\<rparr>"
    by (simp add: example_env_def)
  have missing: "generateImages (example_env ticking (Inr \<lparr>generatedImages = None\<rparr>) None) (upstream_request_of a_cat) =
     Inr \<lparr>generatedImages = None\<rparr>"
    by (simp add: example_env_def)
  from no_images_is_internal_error [OF valid empty, of empty_world]
       no_images_is_internal_error [OF valid missing, of empty_world]
       valid empty missing
  show ?thesis by simp
qed


section \<open>Errors raised by the upstream call or while persisting\<close>









section \<open>The request sent upstream\<close>

lemma generate_and_save_calls:
  "calls (snd (generate_and_save E req w)) = calls w @ [req]"
proof -
  have "calls w' = calls w @ [req]"
    if "write_images E bufs 0 [] (w\<lparr>calls := calls w @ [req]\<rparr>) = (res, w')" for bufs res w'
    using write_images_calls [of E bufs 0 "[]" "w\<lparr>calls := calls w @ [req]\<rparr>"] that by simp
  then show ?thesis
    by (auto simp: generate_and_save_def Let_def split: sum.splits option.splits prod.splits)
qed

lemma handler_calls:
  assumes "isValidGenerateImageArgs arguments"
  shows "calls (snd (CallToolRequest_handler E ''generate_image'' arguments w)) =
           calls w @ [upstream_request_of arguments]"
  using assms generate_and_save_calls [of E "upstream_request_of arguments" w]
  by (auto simp: CallToolRequest_handler_def split: prod.splits sum.splits)

lemma typeof_string: "typeof v = ''string'' \<longleftrightarrow> (\<exists>s. v = JStr s)"
  by (cases v) auto

lemma typeof_number: "typeof v = ''number'' \<longleftrightarrow> (\<exists>n. v = JNum n)"
  by (cases v) auto

lemma config_of_request:
  "config (upstream_request_of arguments) =
     [(''numberOfImages'', js_or (get_prop arguments ''numberOfImages'') (JNum (Finite 1))),
      (''aspectRatio'', js_or (get_prop arguments ''aspectRatio'') (JStr ''9:16'')),
      (''personGeneration'', js_or (get_prop arguments ''personGeneration'') (JStr ''allow_adult'')),
      (''sampleImageSize'', js_or (get_prop arguments ''sampleImageSize'') (JStr ''2K''))]"
  by (simp add: upstream_request_of_def js_or_def Let_def)

text \<open>
  Claim C2. For valid arguments the request sent upstream is the one built from them,
  and in its configuration every optional field that the arguments omit has its default:
  \<^verbatim>\<open>numberOfImages\<close> 1, \<^verbatim>\<open>aspectRatio\<close> "9:16", \<^verbatim>\<open>sampleImageSize\<close> "2K",
  \<^verbatim>\<open>personGeneration\<close> "allow_adult".
\<close>

theorem omitted_fields_take_defaults:
  assumes "isValidGenerateImageArgs arguments"
  shows "calls (snd (CallToolRequest_handler E ''generate_image'' arguments w)) =
           calls w @ [upstream_request_of arguments] \<and>
         (get_prop arguments ''numberOfImages'' = JUndefined \<longrightarrow>
            get_prop (JObj (config (upstream_request_of arguments))) ''numberOfImages'' = JNum (Finite 1)) \<and>
         (get_prop arguments ''aspectRatio'' = JUndefined \<longrightarrow>
            get_prop (JObj (config (upstream_request_of arguments))) ''aspectRatio'' = JStr ''9:16'') \<and>
         (get_prop arguments ''sampleImageSize'' = JUndefined \<longrightarrow>
            get_prop (JObj (config (upstream_request_of arguments))) ''sampleImageSize'' = JStr ''2K'') \<and>
         (get_prop arguments ''personGeneration'' = JUndefined \<longrightarrow>
            get_prop (JObj (config (upstream_request_of arguments))) ''personGeneration'' = JStr ''allow_adult'')"
  using handler_calls [OF assms, of E w]
  by (simp add: config_of_request js_or_def)

theorem omitted_fields_take_defaults_witness:
  "isValidGenerateImageArgs (JObj [(''prompt'', JStr ''A cat'')]) \<and>
   get_prop (JObj [(''prompt'', JStr ''A cat'')]) ''numberOfImages'' = JUndefined \<and>
   get_prop (JObj [(''prompt'', JStr ''A cat'')]) ''aspectRatio'' = JUndefined \<and>
   get_prop (JObj [(''prompt'', JStr ''A cat'')]) ''sampleImageSize'' = JUndefined \<and>
   get_prop (JObj [(''prompt'', JStr ''A cat'')]) ''personGeneration'' = JUndefined \<and>
   calls (snd (CallToolRequest_handler (example_env ticking two_images None) ''generate_image''
                 (JObj [(''prompt'', JStr ''A cat'')]) empty_world)) =
     calls empty_world @ [upstream_request_of (JObj [(''prompt'', JStr ''A cat'')])] \<and>
   get_prop (JObj (config (upstream_request_of (JObj [(''prompt'', JStr ''A cat'')])))) ''numberOfImages'' = JNum (Finite 1) \<and>
   get_prop (JObj (config (upstream_request_of (JObj [(''prompt'', JStr ''A cat'')])))) ''aspectRatio'' = JStr ''9:16'' \<and>
   get_prop (JObj (config (upstream_request_of (JObj [(''prompt'', JStr ''A cat'')])))) ''sampleImageSize'' = JStr ''2K'' \<and>
   get_prop (JObj (config (upstream_request_of (JObj [(''prompt'', JStr ''A cat'')])))) ''personGeneration'' = JStr ''allow_adult''"
proof -
  have valid: "isValidGenerateImageArgs (JObj [(''prompt'', JStr ''A cat'')])"
    by (simp add: isValidGenerateImageArgs_def)
  have omitted:
    "get_prop (JObj [(''prompt'', JStr ''A cat'')]) ''numberOfImages'' = JUndefined"
    "get_prop (JObj [(''prompt'', JStr ''A cat'')]) ''aspectRatio'' = JUndefined"
    "get_prop (JObj [(''prompt'', JStr ''A cat'')]) ''sampleImageSize'' = JUndefined"
    "get_prop (JObj [(''prompt'', JStr ''A cat'')]) ''personGeneration'' = JUndefined"
    by simp_all
  from omitted_fields_take_defaults [OF valid, of "example_env ticking two_images None" empty_world]
       valid omitted
  show ?thesis by blast
qed

text \<open>
  Claim C6, as the code has it. The defaults are applied with \<^verbatim>\<open>||\<close> before the
  configuration is built, so for valid arguments the configuration sent upstream always has
  the four fields \<^verbatim>\<open>numberOfImages\<close>, \<^verbatim>\<open>aspectRatio\<close>, \<^verbatim>\<open>personGeneration\<close> and
  \<^verbatim>\<open>sampleImageSize\<close>, each with a truthy value: a field given as the empty string, and
  a \<^verbatim>\<open>numberOfImages\<close> given as zero, is replaced by its default, and a truthy value is
  forwarded as given.
\<close>

theorem falsy_fields_replaced_by_defaults:
  assumes "isValidGenerateImageArgs arguments"
  shows "calls (snd (CallToolRequest_handler E ''generate_image'' arguments w)) =
           calls w @ [upstream_request_of arguments] \<and>
         map fst (config (upstream_request_of arguments)) =
           [''numberOfImages'', ''aspectRatio'', ''personGeneration'', ''sampleImageSize''] \<and>
         (\<forall>v \<in> snd ` set (config (upstream_request_of arguments)). truthy v) \<and>
         (get_prop arguments ''numberOfImages'' = JNum (Finite 0) \<longrightarrow>
            get_prop (JObj (config (upstream_request_of arguments))) ''numberOfImages'' = JNum (Finite 1)) \<and>
         (get_prop arguments ''aspectRatio'' = JStr '''' \<longrightarrow>
            get_prop (JObj (config (upstream_request_of arguments))) ''aspectRatio'' = JStr ''9:16'') \<and>
         (get_prop arguments ''personGeneration'' = JStr '''' \<longrightarrow>
            get_prop (JObj (config (upstream_request_of arguments))) ''personGeneration'' = JStr ''allow_adult'') \<and>
         (get_prop arguments ''sampleImageSize'' = JStr '''' \<longrightarrow>
            get_prop (JObj (config (upstream_request_of arguments))) ''sampleImageSize'' = JStr ''2K'') \<and>
         (\<forall>k \<in> set [''numberOfImages'', ''aspectRatio'', ''personGeneration'', ''sampleImageSize''].
            truthy (get_prop arguments k) \<longrightarrow>
              get_prop (JObj (config (upstream_request_of arguments))) k = get_prop arguments k)"
  using handler_calls [OF assms, of E w]
  by (simp add: config_of_request js_or_def)

theorem falsy_fields_replaced_by_defaults_witness:
  "isValidGenerateImageArgs
     (JObj [(''prompt'', JStr ''A cat''), (''numberOfImages'', JNum (Finite 0)), (''aspectRatio'', JStr ''''),
            (''personGeneration'', JStr ''''), (''sampleImageSize'', JStr ''1K'')]) \<and>
   config (upstream_request_of
     (JObj [(''prompt'', JStr ''A cat''), (''numberOfImages'', JNum (Finite 0)), (''aspectRatio'', JStr ''''),
            (''personGeneration'', JStr ''''), (''sampleImageSize'', JStr ''1K'')])) =
     [(''numberOfImages'', JNum (Finite 1)), (''aspectRatio'', JStr ''9:16''),
      (''personGeneration'', JStr ''allow_adult''), (''sampleImageSize'', JStr ''1K'')] \<and>
   calls (snd (CallToolRequest_handler (example_env ticking two_images None) ''generate_image''
     (JObj [(''prompt'', JStr ''A cat''), (''numberOfImages'', JNum (Finite 0)), (''aspectRatio'', JStr ''''),
            (''personGeneration'', JStr ''''), (''sampleImageSize'', JStr ''1K'')]) empty_world)) =
     calls empty_world @ [upstream_request_of
       (JObj [(''prompt'', JStr ''A cat''), (''numberOfImages'', JNum (Finite 0)), (''aspectRatio'', JStr ''''),
              (''personGeneration'', JStr ''''), (''sampleImageSize'', JStr ''1K'')])]"
proof -
  have valid: "isValidGenerateImageArgs
     (JObj [(''prompt'', JStr ''A cat''), (''numberOfImages'', JNum (Finite 0)), (''aspectRatio'', JStr ''''),
            (''personGeneration'', JStr ''''), (''sampleImageSize'', JStr ''1K'')])"
    by (simp add: isValidGenerateImageArgs_def)
  have cfg: "config (upstream_request_of
     (JObj [(''prompt'', JStr ''A cat''), (''numberOfImages'', JNum (Finite 0)), (''aspectRatio'', JStr ''''),
            (''personGeneration'', JStr ''''), (''sampleImageSize'', JStr ''1K'')])) =
     [(''numberOfImages'', JNum (Finite 1)), (''aspectRatio'', JStr ''9:16''),
      (''personGeneration'', JStr ''allow_adult''), (''sampleImageSize'', JStr ''1K'')]"
    by (simp add: config_of_request js_or_def)
  from falsy_fields_replaced_by_defaults [OF valid, of "example_env ticking two_images None" empty_world]
       valid cfg
  show ?thesis by blast
qed

text \<open>
  Claim C6, as stated, fails: an \<^verbatim>\<open>aspectRatio\<close> given as the empty string is not left out
  of the configuration sent upstream, it is sent as "9:16"; a \<^verbatim>\<open>numberOfImages\<close> given
  as zero is sent as 1.
\<close>

theorem falsy_field_omitted_counterexample:
  "isValidGenerateImageArgs
     (JObj [(''prompt'', JStr ''A cat''), (''numberOfImages'', JNum (Finite 0)), (''aspectRatio'', JStr '''')]) \<and>
   calls (snd (CallToolRequest_handler (example_env ticking two_images None) ''generate_image''
     (JObj [(''prompt'', JStr ''A cat''), (''numberOfImages'', JNum (Finite 0)), (''aspectRatio'', JStr '''')])
     empty_world)) =
     [\<lparr>model = ''imagen-4.0-generate-001'', prompt = JStr ''A cat'',
       config = [(''numberOfImages'', JNum (Finite 1)), (''aspectRatio'', JStr ''9:16''),
                 (''personGeneration'', JStr ''allow_adult''), (''sampleImageSize'', JStr ''2K'')]\<rparr>] \<and>
   get_prop (JObj (config (upstream_request_of
     (JObj [(''prompt'', JStr ''A cat''), (''numberOfImages'', JNum (Finite 0)), (''aspectRatio'', JStr '''')]))))
     ''aspectRatio'' = JStr ''9:16''"
proof -
  have valid: "isValidGenerateImageArgs
     (JObj [(''prompt'', JStr ''A cat''), (''numberOfImages'', JNum (Finite 0)), (''aspectRatio'', JStr '''')])"
    by (simp add: isValidGenerateImageArgs_def)
  have "upstream_request_of
     (JObj [(''prompt'', JStr ''A cat''), (''numberOfImages'', JNum (Finite 0)), (''aspectRatio'', JStr '''')]) =
     \<lparr>model = ''imagen-4.0-generate-001'', prompt = JStr ''A cat'',
       config = [(''numberOfImages'', JNum (Finite 1)), (''aspectRatio'', JStr ''9:16''),
                 (''personGeneration'', JStr ''allow_adult''), (''sampleImageSize'', JStr ''2K'')]\<rparr>"
    by (simp add: upstream_request_of_def js_or_def Let_def)
  with handler_calls [OF valid, of "example_env ticking two_images None" empty_world] valid
  show ?thesis by (simp add: empty_world_def)
qed

text \<open>
  Claim C8, as the code has it. Validation checks that \<^verbatim>\<open>prompt\<close> is a string and
  nothing more: for valid arguments the prompt is a text, possibly empty, and it is sent
  upstream as it is.
\<close>

theorem valid_prompt_is_text:
  assumes "isValidGenerateImageArgs arguments"
  shows "\<exists>s. get_prop arguments ''prompt'' = JStr s \<and>
             prompt (upstream_request_of arguments) = JStr s \<and>
             calls (snd (CallToolRequest_handler E ''generate_image'' arguments w)) =
               calls w @ [upstream_request_of arguments]"
proof -
  from assms obtain s where "get_prop arguments ''prompt'' = JStr s"
    by (auto simp: isValidGenerateImageArgs_def typeof_string)
  then show ?thesis
    using handler_calls [OF assms, of E w] by (simp add: upstream_request_of_def Let_def)
qed

theorem valid_prompt_is_text_witness:
  "isValidGenerateImageArgs a_cat \<and>
   (\<exists>s. get_prop a_cat ''prompt'' = JStr s \<and>
         prompt (upstream_request_of a_cat) = JStr s \<and>
         calls (snd (CallToolRequest_handler (example_env ticking two_images None) ''generate_image'' a_cat empty_world)) =
           calls empty_world @ [upstream_request_of a_cat])"
proof -
  have valid: "isValidGenerateImageArgs a_cat"
    by (simp add: isValidGenerateImageArgs_def a_cat_def)
  from valid_prompt_is_text [OF valid, of "example_env ticking two_images None" empty_world] valid
  show ?thesis by blast
qed

text \<open>
  Claim C8, as stated, fails: arguments whose \<^verbatim>\<open>prompt\<close> is the empty string pass
  validation, and the empty prompt is sent upstream.
\<close>

theorem empty_prompt_counterexample:
  "isValidGenerateImageArgs (JObj [(''prompt'', JStr '''')]) \<and>
   calls (snd (CallToolRequest_handler (example_env ticking two_images None) ''generate_image''
                 (JObj [(''prompt'', JStr '''')]) empty_world)) =
     [\<lparr>model = ''imagen-4.0-generate-001'', prompt = JStr '''',
       config = [(''numberOfImages'', JNum (Finite 1)), (''aspectRatio'', JStr ''9:16''),
                 (''personGeneration'', JStr ''allow_adult''), (''sampleImageSize'', JStr ''2K'')]\<rparr>]"
proof -
  have valid: "isValidGenerateImageArgs (JObj [(''prompt'', JStr '''')])"
    by (simp add: isValidGenerateImageArgs_def)
  have "upstream_request_of (JObj [(''prompt'', JStr '''')]) =
     \<lparr>model = ''imagen-4.0-generate-001'', prompt = JStr '''',
       config = [(''numberOfImages'', JNum (Finite 1)), (''aspectRatio'', JStr ''9:16''),
                 (''personGeneration'', JStr ''allow_adult''), (''sampleImageSize'', JStr ''2K'')]\<rparr>"
    by (simp add: upstream_request_of_def js_or_def Let_def)
  with handler_calls [OF valid, of "example_env ticking two_images None" empty_world] valid
  show ?thesis by (simp add: empty_world_def)
qed

section \<open>The advertised schema\<close>

text \<open>
  Claim C9 against the code. The tool list has exactly one tool, \<^verbatim>\<open>generate_image\<close>, but
  its schema advertises "allow_all" as the default of \<^verbatim>\<open>personGeneration\<close>, while a
  call that omits the field is sent upstream with "allow_adult"; and the schema gives no
  default for \<^verbatim>\<open>numberOfImages\<close>, for which a call that omits it sends 1.
\<close>

theorem advertised_personGeneration_default_differs:
  "(\<exists>tool. get_prop ListToolsRequest_handler ''tools'' = JArr [tool] \<and>
      get_prop tool ''name'' = JStr ''generate_image'' \<and>
      get_prop (get_prop (get_prop (get_prop tool ''inputSchema'') ''properties'') ''personGeneration'')
        ''default'' = JStr ''allow_all'' \<and>
      get_prop (get_prop (get_prop (get_prop tool ''inputSchema'') ''properties'') ''numberOfImages'')
        ''default'' = JUndefined) \<and>
   isValidGenerateImageArgs (JObj [(''prompt'', JStr ''A cat'')]) \<and>
   get_prop (JObj (config (upstream_request_of (JObj [(''prompt'', JStr ''A cat'')])))) ''personGeneration'' =
     JStr ''allow_adult'' \<and>
   get_prop (JObj (config (upstream_request_of (JObj [(''prompt'', JStr ''A cat'')])))) ''numberOfImages'' =
     JNum (Finite 1)"
  by (simp add: ListToolsRequest_handler_def isValidGenerateImageArgs_def config_of_request js_or_def)

section \<open>Unknown fields\<close>

lemma map_of_filter_keys:
  "k \<in> K \<Longrightarrow> map_of (filter (\<lambda>p. fst p \<in> K) ps) k = map_of ps k"
  by (induction ps) auto

lemma get_prop_filter_keys:
  "k \<in> K \<Longrightarrow> get_prop (JObj (filter (\<lambda>p. fst p \<in> K) ps)) k = get_prop (JObj ps) k"
  by (simp add: map_of_filter_keys)

text \<open>
  Claim C10. An arguments object whose \<^verbatim>\<open>prompt\<close> is a string and whose known optional
  fields, when present, have the right primitive type is valid whatever other keys it
  has. The call passes validation and reaches the upstream service, and the other keys are
  ignored: the request sent is the one built from the known keys alone, the call does
  exactly what it does on the object with the other keys removed, and the configuration
  sent upstream has the four known fields only.
\<close>

theorem unknown_keys_ignored:
  assumes "typeof (get_prop (JObj ps) ''prompt'') = ''string''"
      and "get_prop (JObj ps) ''numberOfImages'' = JUndefined \<or>
           typeof (get_prop (JObj ps) ''numberOfImages'') = ''number''"
      and "\<forall>k \<in> {''aspectRatio'', ''sampleImageSize'', ''personGeneration''}.
             get_prop (JObj ps) k = JUndefined \<or> typeof (get_prop (JObj ps) k) = ''string''"
  shows "isValidGenerateImageArgs (JObj ps) \<and>
         CallToolRequest_handler E name (JObj ps) w =
           CallToolRequest_handler E name
             (JObj (filter (\<lambda>p. fst p \<in> {''prompt'', ''numberOfImages'', ''aspectRatio'',
                                         ''sampleImageSize'', ''personGeneration''}) ps)) w \<and>
         fst ` set (config (upstream_request_of (JObj ps))) =
           {''numberOfImages'', ''aspectRatio'', ''personGeneration'', ''sampleImageSize''} \<and>
         calls (snd (CallToolRequest_handler E ''generate_image'' (JObj ps) w)) =
           calls w @ [upstream_request_of (JObj ps)] \<and>
         upstream_request_of (JObj ps) =
           upstream_request_of
             (JObj (filter (\<lambda>p. fst p \<in> {''prompt'', ''numberOfImages'', ''aspectRatio'',
                                         ''sampleImageSize'', ''personGeneration''}) ps)) \<and>
         prompt (upstream_request_of (JObj ps)) = get_prop (JObj ps) ''prompt''"
proof -
  define K where "K = {''prompt'', ''numberOfImages'', ''aspectRatio'', ''sampleImageSize'', ''personGeneration''}"
  define known where "known = JObj (filter (\<lambda>p. fst p \<in> K) ps)"
  have same:
    "get_prop known ''prompt'' = get_prop (JObj ps) ''prompt''"
    "get_prop known ''numberOfImages'' = get_prop (JObj ps) ''numberOfImages''"
    "get_prop known ''aspectRatio'' = get_prop (JObj ps) ''aspectRatio''"
    "get_prop known ''sampleImageSize'' = get_prop (JObj ps) ''sampleImageSize''"
    "get_prop known ''personGeneration'' = get_prop (JObj ps) ''personGeneration''"
    unfolding known_def by (rule get_prop_filter_keys, simp add: K_def)+
  have valid: "isValidGenerateImageArgs (JObj ps)"
    using assms by (simp add: isValidGenerateImageArgs_def)
  have obj: "typeof known = ''object''" "known \<noteq> JNull"
    by (simp_all add: known_def)
  have valid_eq: "isValidGenerateImageArgs known = isValidGenerateImageArgs (JObj ps)"
    unfolding isValidGenerateImageArgs_def same using obj by simp
  have req_eq: "upstream_request_of known = upstream_request_of (JObj ps)"
    unfolding upstream_request_of_def same ..
  have "CallToolRequest_handler E name (JObj ps) w = CallToolRequest_handler E name known w"
    unfolding CallToolRequest_handler_def valid_eq req_eq ..
  moreover have "fst ` set (config (upstream_request_of (JObj ps))) =
      {''numberOfImages'', ''aspectRatio'', ''personGeneration'', ''sampleImageSize''}"
    unfolding config_of_request by simp
  moreover have "calls (snd (CallToolRequest_handler E ''generate_image'' (JObj ps) w)) =
      calls w @ [upstream_request_of (JObj ps)]"
    using valid by (rule handler_calls)
  moreover have "prompt (upstream_request_of (JObj ps)) = get_prop (JObj ps) ''prompt''"
    by (simp add: upstream_request_of_def Let_def del: get_prop.simps)
  ultimately show ?thesis
    using valid req_eq [symmetric] unfolding known_def K_def by (intro conjI)
qed

theorem unknown_keys_ignored_witness:
  "typeof (get_prop (JObj [(''seed'', JNum (Finite 7)), (''prompt'', JStr ''A cat''),
      (''negativePrompt'', JStr ''dogs''), (''aspectRatio'', JStr ''1:1'')]) ''prompt'') = ''string'' \<and>
   get_prop (JObj [(''seed'', JNum (Finite 7)), (''prompt'', JStr ''A cat''),
      (''negativePrompt'', JStr ''dogs''), (''aspectRatio'', JStr ''1:1'')]) ''numberOfImages'' = JUndefined \<and>
   typeof (get_prop (JObj [(''seed'', JNum (Finite 7)), (''prompt'', JStr ''A cat''),
      (''negativePrompt'', JStr ''dogs''), (''aspectRatio'', JStr ''1:1'')]) ''aspectRatio'') = ''string'' \<and>
   get_prop (JObj [(''seed'', JNum (Finite 7)), (''prompt'', JStr ''A cat''),
      (''negativePrompt'', JStr ''dogs''), (''aspectRatio'', JStr ''1:1'')]) ''sampleImageSize'' = JUndefined \<and>
   get_prop (JObj [(''seed'', JNum (Finite 7)), (''prompt'', JStr ''A cat''),
      (''negativePrompt'', JStr ''dogs''), (''aspectRatio'', JStr ''1:1'')]) ''personGeneration'' = JUndefined \<and>
   isValidGenerateImageArgs (JObj [(''seed'', JNum (Finite 7)), (''prompt'', JStr ''A cat''),
      (''negativePrompt'', JStr ''dogs''), (''aspectRatio'', JStr ''1:1'')]) \<and>
   CallToolRequest_handler (example_env ticking two_images None) ''generate_image''
     (JObj [(''seed'', JNum (Finite 7)), (''prompt'', JStr ''A cat''),
      (''negativePrompt'', JStr ''dogs''), (''aspectRatio'', JStr ''1:1'')]) empty_world =
   CallToolRequest_handler (example_env ticking two_images None) ''generate_image''
     (JObj [(''prompt'', JStr ''A cat''), (''aspectRatio'', JStr ''1:1'')]) empty_world \<and>
   fst ` set (config (upstream_request_of (JObj [(''seed'', JNum (Finite 7)), (''prompt'', JStr ''A cat''),
      (''negativePrompt'', JStr ''dogs''), (''aspectRatio'', JStr ''1:1'')]))) =
     {''numberOfImages'', ''aspectRatio'', ''personGeneration'', ''sampleImageSize''} \<and>
   calls (snd (CallToolRequest_handler (example_env ticking two_images None) ''generate_image''
     (JObj [(''seed'', JNum (Finite 7)), (''prompt'', JStr ''A cat''),
      (''negativePrompt'', JStr ''dogs''), (''aspectRatio'', JStr ''1:1'')]) empty_world)) =
     [\<lparr>model = ''imagen-4.0-generate-001'', prompt = JStr ''A cat'',
       config = [(''numberOfImages'', JNum (Finite 1)), (''aspectRatio'', JStr ''1:1''),
                 (''personGeneration'', JStr ''allow_adult''), (''sampleImageSize'', JStr ''2K'')]\<rparr>]"
proof -
  let ?ps = "[(''seed'', JNum (Finite 7)), (''prompt'', JStr ''A cat''),
      (''negativePrompt'', JStr ''dogs''), (''aspectRatio'', JStr ''1:1'')]"
  have p: "typeof (get_prop (JObj ?ps) ''prompt'') = ''string''" by simp
  have n: "get_prop (JObj ?ps) ''numberOfImages'' = JUndefined \<or>
           typeof (get_prop (JObj ?ps) ''numberOfImages'') = ''number''" by simp
  have o: "\<forall>k \<in> {''aspectRatio'', ''sampleImageSize'', ''personGeneration''}.
             get_prop (JObj ?ps) k = JUndefined \<or> typeof (get_prop (JObj ?ps) k) = ''string''" by simp
  have f: "filter (\<lambda>p. fst p \<in> {''prompt'', ''numberOfImages'', ''aspectRatio'',
                                         ''sampleImageSize'', ''personGeneration''}) ?ps =
           [(''prompt'', JStr ''A cat''), (''aspectRatio'', JStr ''1:1'')]" by simp
  have n': "get_prop (JObj ?ps) ''numberOfImages'' = JUndefined" by simp
  have req: "upstream_request_of (JObj ?ps) =
     \<lparr>model = ''imagen-4.0-generate-001'', prompt = JStr ''A cat'',
       config = [(''numberOfImages'', JNum (Finite 1)), (''aspectRatio'', JStr ''1:1''),
                 (''personGeneration'', JStr ''allow_adult''), (''sampleImageSize'', JStr ''2K'')]\<rparr>"
    by (simp add: upstream_request_of_def js_or_def Let_def)
  have none: "calls empty_world = []" by (simp add: empty_world_def)
  note ignored =
    unknown_keys_ignored [OF p n o, of "example_env ticking two_images None" "''generate_image''" empty_world,
      unfolded f]
  have run: "CallToolRequest_handler (example_env ticking two_images None) ''generate_image'' (JObj ?ps) empty_world =
     CallToolRequest_handler (example_env ticking two_images None) ''generate_image''
       (JObj [(''prompt'', JStr ''A cat''), (''aspectRatio'', JStr ''1:1'')]) empty_world"
    by (rule ignored [THEN conjunct2, THEN conjunct1])
  have keys: "fst ` set (config (upstream_request_of (JObj ?ps))) =
     {''numberOfImages'', ''aspectRatio'', ''personGeneration'', ''sampleImageSize''}"
    by (rule ignored [THEN conjunct2, THEN conjunct2, THEN conjunct1])
  have sent: "calls (snd (CallToolRequest_handler (example_env ticking two_images None) ''generate_image''
       (JObj ?ps) empty_world)) = calls empty_world @ [upstream_request_of (JObj ?ps)]"
    by (rule ignored [THEN conjunct2, THEN conjunct2, THEN conjunct2, THEN conjunct1])
  have valid: "isValidGenerateImageArgs (JObj ?ps)"
    by (rule ignored [THEN conjunct1])
  have aspect: "typeof (get_prop (JObj ?ps) ''aspectRatio'') = ''string''" by simp
  have size: "get_prop (JObj ?ps) ''sampleImageSize'' = JUndefined" by simp
  have person: "get_prop (JObj ?ps) ''personGeneration'' = JUndefined" by simp
  have sent': "calls (snd (CallToolRequest_handler (example_env ticking two_images None) ''generate_image''
       (JObj ?ps) empty_world)) =
     [\<lparr>model = ''imagen-4.0-generate-001'', prompt = JStr ''A cat'',
       config = [(''numberOfImages'', JNum (Finite 1)), (''aspectRatio'', JStr ''1:1''),
                 (''personGeneration'', JStr ''allow_adult''), (''sampleImageSize'', JStr ''2K'')]\<rparr>]"
    using sent unfolding req none by (simp only: append_Nil)
  from p n' aspect size person valid run keys sent' show ?thesis
    by (intro conjI)
qed

end
